theory Spec2Isabelle
  imports Main "HOL-Library.Numeral_Type"
begin

section \<open>The curve library the script imports\<close>

text \<open>
  \<^verbatim>\<open>script/constants.py\<close> starts with
  \<^verbatim>\<open>from py_ecc.bn128.bn128_curve import neg, multiply, G1, G2\<close> and
  \<^verbatim>\<open>from py_ecc.bn128.bn128_curve import curve_order\<close>.
  The library is a dependency, not a file of the repository, so it is a parameter of
  the model: a record of the names the script imports, together with the other
  operations of the same module that the on-chain fold and the subgroup invariant
  speak about (point addition, the points at infinity, the on-curve tests). One type
  \<open>'pt\<close> holds the points of both curves, as in the library, where \<open>multiply\<close> and
  \<open>neg\<close> are the same functions for both groups. Python integers are unbounded,
  so scalars are \<open>int\<close>.
\<close>

record 'pt bn128_curve =
  G1 :: 'pt
  G2 :: 'pt
  curve_order :: int
  multiply :: "'pt \<Rightarrow> int \<Rightarrow> 'pt"
  neg :: "'pt \<Rightarrow> 'pt"
  add :: "'pt \<Rightarrow> 'pt \<Rightarrow> 'pt"
  Z1 :: 'pt
  Z2 :: 'pt
  on_curve :: "'pt \<Rightarrow> bool"
  on_twist :: "'pt \<Rightarrow> bool"

text \<open>
  What the library promises about one of its two groups (the arithmetic primitive of
  section 6 of the specification, a trusted collaborator there): the points \<open>on\<close>
  the curve form an abelian group under \<open>add\<close> with identity \<open>z\<close> and inverse
  \<open>neg\<close>, \<open>multiply\<close> is repeated addition for the scalars it is defined on
  (the non-negative ones), and the generator \<open>g\<close> is a point of the curve that
  \<open>curve_order\<close> sends to the identity. Nothing is promised about a point off the
  curve or about a negative scalar.
\<close>

definition group_contract ::
  "'pt bn128_curve \<Rightarrow> ('pt \<Rightarrow> bool) \<Rightarrow> 'pt \<Rightarrow> 'pt \<Rightarrow> bool" where
  "group_contract L on z g \<longleftrightarrow>
     on z \<and> on g \<and>
     (\<forall>a. on a \<longrightarrow> on (neg L a)) \<and>
     (\<forall>a b. on a \<longrightarrow> on b \<longrightarrow> on (add L a b)) \<and>
     (\<forall>a b c. on a \<longrightarrow> on b \<longrightarrow> on c \<longrightarrow>
        add L (add L a b) c = add L a (add L b c)) \<and>
     (\<forall>a b. on a \<longrightarrow> on b \<longrightarrow> add L a b = add L b a) \<and>
     (\<forall>a. on a \<longrightarrow> add L z a = a) \<and>
     (\<forall>a. on a \<longrightarrow> add L a (neg L a) = z) \<and>
     (\<forall>a. on a \<longrightarrow> multiply L a 0 = z) \<and>
     (\<forall>a n. on a \<longrightarrow> 0 \<le> n \<longrightarrow>
        multiply L a (n + 1) = add L (multiply L a n) a) \<and>
     multiply L g (curve_order L) = z"

definition curve_contract :: "'pt bn128_curve \<Rightarrow> bool" where
  "curve_contract L \<longleftrightarrow>
     0 < curve_order L \<and>
     group_contract L (on_curve L) (Z1 L) (G1 L) \<and>
     group_contract L (on_twist L) (Z2 L) (G2 L)"

text \<open>
  The invariant of the data model: a point is usable in a pairing when it lies on its
  curve and in the subgroup that \<open>curve_order\<close> annihilates.
\<close>

definition in_G1 :: "'pt bn128_curve \<Rightarrow> 'pt \<Rightarrow> bool" where
  "in_G1 L pt \<longleftrightarrow> on_curve L pt \<and> multiply L pt (curve_order L) = Z1 L"

definition in_G2 :: "'pt bn128_curve \<Rightarrow> 'pt \<Rightarrow> bool" where
  "in_G2 L pt \<longleftrightarrow> on_twist L pt \<and> multiply L pt (curve_order L) = Z2 L"

section \<open>script/constants.py\<close>

text \<open>
  The scalar seeds. The source names start with an underscore (\<^verbatim>\<open>_A1 = 1\<close>),
  which an Isabelle name cannot, so \<^verbatim>\<open>_A1\<close> is \<open>sc_A1\<close>, and so on.
\<close>

definition sc_A1 :: int where "sc_A1 = 1"
definition sc_B2 :: int where "sc_B2 = 1"
definition sc_C1 :: int where "sc_C1 = 1"

definition sc_a1 :: int where "sc_a1 = 1"
definition sc_b2 :: int where "sc_b2 = 1"
definition sc_g2 :: int where "sc_g2 = 1"
definition sc_D2 :: int where "sc_D2 = 1"

definition sc_x1 :: int where "sc_x1 = 2"
definition sc_x2 :: int where "sc_x2 = 3"
definition sc_x3 :: int where "sc_x3 = 4"

text \<open>The proof points.\<close>

definition A1 :: "'pt bn128_curve \<Rightarrow> 'pt" where
  "A1 L = multiply L (G1 L) sc_A1"

definition B2 :: "'pt bn128_curve \<Rightarrow> 'pt" where
  "B2 L = multiply L (G2 L) sc_B2"

definition C1 :: "'pt bn128_curve \<Rightarrow> 'pt" where
  "C1 L = multiply L (G1 L) sc_C1"

text \<open>The verifier key.\<close>

definition a1 :: "'pt bn128_curve \<Rightarrow> 'pt" where
  "a1 L = multiply L (G1 L) sc_a1"

definition b2 :: "'pt bn128_curve \<Rightarrow> 'pt" where
  "b2 L = multiply L (G2 L) sc_b2"

definition g2 :: "'pt bn128_curve \<Rightarrow> 'pt" where
  "g2 L = multiply L (G2 L) sc_g2"

definition D2 :: "'pt bn128_curve \<Rightarrow> 'pt" where
  "D2 L = neg L (multiply L (G2 L) sc_D2)"

text \<open>The public-input points, "computed in contract, but for reference".\<close>

definition x1_G1 :: "'pt bn128_curve \<Rightarrow> 'pt" where
  "x1_G1 L = multiply L (G1 L) sc_x1"

definition x2_G1 :: "'pt bn128_curve \<Rightarrow> 'pt" where
  "x2_G1 L = multiply L (G1 L) sc_x2"

definition x3_G1 :: "'pt bn128_curve \<Rightarrow> 'pt" where
  "x3_G1 L = neg L (multiply L (G1 L) sc_x3)"

text \<open>
  The last line prints the third input for the contract as
  \<^verbatim>\<open>curve_order - 4\<close> ("x3 (as positive mod order)").
\<close>

definition x3_as_positive :: "'pt bn128_curve \<Rightarrow> int" where
  "x3_as_positive L = curve_order L - 4"

text \<open>
  The docstring's \<^verbatim>\<open>X_1 = x1*G1 + x2*G1 + x3*G1\<close>, on the three reference
  points, with the library's point addition.
\<close>

definition X1 :: "'pt bn128_curve \<Rightarrow> 'pt" where
  "X1 L = add L (add L (x1_G1 L) (x2_G1 L)) (x3_G1 L)"

text \<open>
  The same sum on the inputs the script prints for the contract: \<^verbatim>\<open>x1\<close>,
  \<^verbatim>\<open>x2\<close> and, for \<^verbatim>\<open>x3\<close>, the positive scalar
  \<^verbatim>\<open>curve_order - 4\<close>, each multiplied into the generator.
\<close>

definition X1_printed :: "'pt bn128_curve \<Rightarrow> 'pt" where
  "X1_printed L =
     add L (add L (multiply L (G1 L) sc_x1) (multiply L (G1 L) sc_x2))
       (multiply L (G1 L) (x3_as_positive L))"

text \<open>The key the script prints, as one value.\<close>

record 'pt verification_key =
  alpha1 :: 'pt
  beta2 :: 'pt
  gamma2 :: 'pt
  delta2 :: 'pt

definition script_key :: "'pt bn128_curve \<Rightarrow> 'pt verification_key" where
  "script_key L = \<lparr>alpha1 = a1 L, beta2 = b2 L, gamma2 = g2 L, delta2 = D2 L\<rparr>"

text \<open>Every scalar the script hands to \<open>multiply\<close>, and the one it prints.\<close>

definition script_scalars :: "'pt bn128_curve \<Rightarrow> int list" where
  "script_scalars L =
     [sc_A1, sc_B2, sc_C1, sc_a1, sc_b2, sc_g2, sc_D2, sc_x1, sc_x2, sc_x3,
      x3_as_positive L]"

definition reduced :: "'pt bn128_curve \<Rightarrow> int \<Rightarrow> bool" where
  "reduced L s \<longleftrightarrow> 0 \<le> s \<and> s < curve_order L"

section \<open>script/deploy.py\<close>

text \<open>
  \<^verbatim>\<open>Verifier.deploy()\<close> is a call into the deployment framework: it acts on a
  chain and either raises or returns the contract. It is a parameter, a function from
  the chain before the call to the outcome and the chain after it.
\<close>

datatype deploy_error = DeployError string

type_synonym ('chain, 'contract) deployment =
  "'chain \<Rightarrow> (deploy_error + 'contract) \<times> 'chain"

definition deploy :: "('chain, 'contract) deployment \<Rightarrow> ('chain, 'contract) deployment" where
  "deploy Verifier_deploy chain =
     (case Verifier_deploy chain of
        (Inl e, chain') \<Rightarrow> (Inl e, chain')
      | (Inr verifier, chain') \<Rightarrow> (Inr verifier, chain'))"

definition moccasin_main ::
  "('chain, 'contract) deployment \<Rightarrow> ('chain, 'contract) deployment" where
  "moccasin_main Verifier_deploy chain = deploy Verifier_deploy chain"

section \<open>The verifier of the specification\<close>

text \<open>
  Modelled from the spec: the scalar seeds that the verification-key construction of
  section 4.4 takes, one for each point of the key.
\<close>

record setup_scalars =
  seed_alpha :: int
  seed_beta :: int
  seed_gamma :: int
  seed_delta :: int

text \<open>
  Modelled from the spec: the verification-key construction of section 4.4
  (\<open>buildVerificationKey(setupScalars)\<close>), which the repository does not hold as a
  function: the four points are the generators multiplied by the seeds, and delta2 is
  negated.
\<close>

definition buildVerificationKey ::
  "'pt bn128_curve \<Rightarrow> setup_scalars \<Rightarrow> 'pt verification_key" where
  "buildVerificationKey L s =
     \<lparr>alpha1 = multiply L (G1 L) (seed_alpha s),
      beta2 = multiply L (G2 L) (seed_beta s),
      gamma2 = multiply L (G2 L) (seed_gamma s),
      delta2 = neg L (multiply L (G2 L) (seed_delta s))\<rparr>"

definition script_seeds :: setup_scalars where
  "script_seeds =
     \<lparr>seed_alpha = sc_a1, seed_beta = sc_b2, seed_gamma = sc_g2, seed_delta = sc_D2\<rparr>"

text \<open>
  Modelled from the spec: the pairing of section 6, which the script does not import
  and no file of the repository implements: a map from a point of each group to the
  target group, with the target group's multiplication and identity.
\<close>

record ('pt, 'gt) bn128_pairing =
  pairing :: "'pt \<Rightarrow> 'pt \<Rightarrow> 'gt"
  gt_mul :: "'gt \<Rightarrow> 'gt \<Rightarrow> 'gt"
  gt_one :: 'gt

text \<open>
  Modelled from the spec: the contract of that pairing: bilinear on the two subgroups,
  the identity at a point at infinity, and the target group a monoid.
\<close>

definition pairing_contract ::
  "'pt bn128_curve \<Rightarrow> ('pt, 'gt) bn128_pairing \<Rightarrow> bool" where
  "pairing_contract L P \<longleftrightarrow>
     (\<forall>a a' b. in_G1 L a \<longrightarrow> in_G1 L a' \<longrightarrow> in_G2 L b \<longrightarrow>
        pairing P (add L a a') b = gt_mul P (pairing P a b) (pairing P a' b)) \<and>
     (\<forall>a b b'. in_G1 L a \<longrightarrow> in_G2 L b \<longrightarrow> in_G2 L b' \<longrightarrow>
        pairing P a (add L b b') = gt_mul P (pairing P a b) (pairing P a b')) \<and>
     (\<forall>b. in_G2 L b \<longrightarrow> pairing P (Z1 L) b = gt_one P) \<and>
     (\<forall>a. in_G1 L a \<longrightarrow> pairing P a (Z2 L) = gt_one P) \<and>
     (\<forall>x y z. gt_mul P (gt_mul P x y) z = gt_mul P x (gt_mul P y z)) \<and>
     (\<forall>x. gt_mul P (gt_one P) x = x) \<and>
     (\<forall>x. gt_mul P x (gt_one P) = x)"

text \<open>
  Modelled from the spec: the inputs of the public-input folder of section 4.1. An
  input is a reduced scalar, or a designated negative-sign input given by its
  magnitude.
\<close>

datatype public_input = Scalar int | Negated int

text \<open>
  Modelled from the spec: what one input adds to the fold (section 4.1): the generator
  multiplied by the scalar, negated as a point for a negative-sign input.
\<close>

fun contribution :: "'pt bn128_curve \<Rightarrow> public_input \<Rightarrow> 'pt" where
  "contribution L (Scalar s) = multiply L (G1 L) s"
| "contribution L (Negated s) = neg L (multiply L (G1 L) s)"

text \<open>
  Modelled from the spec: the public-input folder \<open>fold\<close> of section 4.1, the sum of
  the contributions in the order of the inputs. The empty sequence folds to the
  identity of G1.
\<close>

definition fold_inputs :: "'pt bn128_curve \<Rightarrow> public_input list \<Rightarrow> 'pt" where
  "fold_inputs L inputs = foldl (\<lambda>acc x. add L acc (contribution L x)) (Z1 L) inputs"

text \<open>
  Modelled from the spec: the proof of section 3, the three points that the caller
  supplies.
\<close>

record 'pt zk_proof =
  proof_A1 :: 'pt
  proof_B2 :: 'pt
  proof_C1 :: 'pt

text \<open>
  Modelled from the spec: the product of the pairing equation of section 4.2,
  e(-A1, B2) e(alpha1, beta2) e(X1, gamma2) e(C1, delta2), multiplied in the order the
  equation lists the four pairings.
\<close>

definition pairing_product ::
  "'pt bn128_curve \<Rightarrow> ('pt, 'gt) bn128_pairing \<Rightarrow> 'pt zk_proof \<Rightarrow> 'pt \<Rightarrow>
   'pt verification_key \<Rightarrow> 'gt" where
  "pairing_product L P prf X vk =
     gt_mul P
       (gt_mul P
          (gt_mul P (pairing P (neg L (proof_A1 prf)) (proof_B2 prf))
             (pairing P (alpha1 vk) (beta2 vk)))
          (pairing P X (gamma2 vk)))
       (pairing P (proof_C1 prf) (delta2 vk))"

text \<open>
  Modelled from the spec: the subgroup-membership validation that section 4.2 asks for
  before any pairing, on every point of the equation.
\<close>

definition points_valid ::
  "'pt bn128_curve \<Rightarrow> 'pt zk_proof \<Rightarrow> 'pt \<Rightarrow> 'pt verification_key \<Rightarrow> bool" where
  "points_valid L prf X vk \<longleftrightarrow>
     in_G1 L (proof_A1 prf) \<and> in_G2 L (proof_B2 prf) \<and> in_G1 L (proof_C1 prf) \<and>
     in_G1 L X \<and>
     in_G1 L (alpha1 vk) \<and> in_G2 L (beta2 vk) \<and> in_G2 L (gamma2 vk) \<and>
     in_G2 L (delta2 vk)"

text \<open>
  Modelled from the spec: the evaluator \<open>check\<close> of section 4.2: false when a point
  fails the subgroup test, and otherwise whether the product is the identity of the
  target group.
\<close>

definition check ::
  "'pt bn128_curve \<Rightarrow> ('pt, 'gt) bn128_pairing \<Rightarrow> 'pt zk_proof \<Rightarrow> 'pt \<Rightarrow>
   'pt verification_key \<Rightarrow> bool" where
  "check L P prf X vk =
     (if points_valid L prf X vk then pairing_product L P prf X vk = gt_one P
      else False)"

text \<open>
  Modelled from the spec: the verifier of section 4.3: fold the public inputs, then
  evaluate the equation.
\<close>

definition verify ::
  "'pt bn128_curve \<Rightarrow> ('pt, 'gt) bn128_pairing \<Rightarrow> 'pt zk_proof \<Rightarrow> public_input list \<Rightarrow>
   'pt verification_key \<Rightarrow> bool" where
  "verify L P prf publicInputs vk = check L P prf (fold_inputs L publicInputs) vk"

text \<open>The scenario: the proof and the inputs of the script.\<close>

definition script_proof :: "'pt bn128_curve \<Rightarrow> 'pt zk_proof" where
  "script_proof L = \<lparr>proof_A1 = A1 L, proof_B2 = B2 L, proof_C1 = C1 L\<rparr>"

definition script_inputs :: "public_input list" where
  "script_inputs = [Scalar sc_x1, Scalar sc_x2, Negated sc_x3]"

section \<open>The library in discrete-logarithm form\<close>

text \<open>
  The docstring of the script writes the equation on the discrete logarithms:
  \<^verbatim>\<open>0 = -A1*B2 + a1*b2 + X1*g2 + C1*d2\<close>. In that form a point \<open>k G\<close> is the
  scalar \<open>k\<close> modulo the order of the BN128 groups, both generators are 1, addition
  is addition modulo the order, and the pairing of \<open>a\<close> and \<open>b\<close> is the product
  \<open>a b\<close> in the target group written additively. This instance meets every contract
  above, at the curve order of BN128.
\<close>

type_synonym zr =
  "21888242871839275222246405745257275088548364400416034343698204186575808495617"

definition bn128_dlog :: "zr bn128_curve" where
  "bn128_dlog =
     \<lparr>G1 = 1, G2 = 1,
      curve_order =
        21888242871839275222246405745257275088548364400416034343698204186575808495617,
      multiply = (\<lambda>pt n. of_int n * pt),
      neg = uminus,
      add = (+),
      Z1 = 0, Z2 = 0,
      on_curve = (\<lambda>pt. True),
      on_twist = (\<lambda>pt. True)\<rparr>"

definition dlog_pairing :: "(zr, zr) bn128_pairing" where
  "dlog_pairing = \<lparr>pairing = (*), gt_mul = (+), gt_one = 0\<rparr>"

section \<open>Consequences of the contracts\<close>

subsection \<open>Group laws\<close>

lemma gc_on_z: "group_contract L on z g \<Longrightarrow> on z"
  unfolding group_contract_def by (elim conjE)

lemma gc_on_g: "group_contract L on z g \<Longrightarrow> on g"
  unfolding group_contract_def by (elim conjE)

lemma gc_order: "group_contract L on z g \<Longrightarrow> multiply L g (curve_order L) = z"
  unfolding group_contract_def by (elim conjE)

lemma gc_on_neg:
  assumes "group_contract L on z g" and "on a"
  shows "on (neg L a)"
proof -
  from assms(1) have "\<forall>a. on a \<longrightarrow> on (neg L a)"
    unfolding group_contract_def by (elim conjE)
  with assms(2) show ?thesis by blast
qed

lemma gc_on_add:
  assumes "group_contract L on z g" and "on a" and "on b"
  shows "on (add L a b)"
proof -
  from assms(1) have "\<forall>a b. on a \<longrightarrow> on b \<longrightarrow> on (add L a b)"
    unfolding group_contract_def by (elim conjE)
  with assms(2,3) show ?thesis by blast
qed

lemma gc_assoc:
  assumes "group_contract L on z g" and "on a" and "on b" and "on c"
  shows "add L (add L a b) c = add L a (add L b c)"
proof -
  from assms(1) have "\<forall>a b c. on a \<longrightarrow> on b \<longrightarrow> on c \<longrightarrow>
      add L (add L a b) c = add L a (add L b c)"
    unfolding group_contract_def by (elim conjE)
  with assms(2,3,4) show ?thesis by blast
qed

lemma gc_comm:
  assumes "group_contract L on z g" and "on a" and "on b"
  shows "add L a b = add L b a"
proof -
  from assms(1) have "\<forall>a b. on a \<longrightarrow> on b \<longrightarrow> add L a b = add L b a"
    unfolding group_contract_def by (elim conjE)
  with assms(2,3) show ?thesis by blast
qed

lemma gc_z_left:
  assumes "group_contract L on z g" and "on a"
  shows "add L z a = a"
proof -
  from assms(1) have "\<forall>a. on a \<longrightarrow> add L z a = a"
    unfolding group_contract_def by (elim conjE)
  with assms(2) show ?thesis by blast
qed

lemma gc_neg_right:
  assumes "group_contract L on z g" and "on a"
  shows "add L a (neg L a) = z"
proof -
  from assms(1) have "\<forall>a. on a \<longrightarrow> add L a (neg L a) = z"
    unfolding group_contract_def by (elim conjE)
  with assms(2) show ?thesis by blast
qed

lemma gc_multiply_0:
  assumes "group_contract L on z g" and "on a"
  shows "multiply L a 0 = z"
proof -
  from assms(1) have "\<forall>a. on a \<longrightarrow> multiply L a 0 = z"
    unfolding group_contract_def by (elim conjE)
  with assms(2) show ?thesis by blast
qed

lemma gc_multiply_step:
  assumes "group_contract L on z g" and "on a" and "0 \<le> n"
  shows "multiply L a (n + 1) = add L (multiply L a n) a"
proof -
  from assms(1) have "\<forall>a n. on a \<longrightarrow> 0 \<le> n \<longrightarrow>
      multiply L a (n + 1) = add L (multiply L a n) a"
    unfolding group_contract_def by (elim conjE)
  with assms(2,3) show ?thesis by blast
qed

lemma gc_z_right:
  assumes "group_contract L on z g" "on a"
  shows "add L a z = a"
proof -
  have "add L a z = add L z a"
    by (rule gc_comm [OF assms(1) assms(2) gc_on_z [OF assms(1)]])
  also have "\<dots> = a" by (rule gc_z_left [OF assms])
  finally show ?thesis .
qed

lemma gc_neg_left:
  assumes "group_contract L on z g" "on a"
  shows "add L (neg L a) a = z"
proof -
  have "add L (neg L a) a = add L a (neg L a)"
    by (rule gc_comm [OF assms(1) gc_on_neg [OF assms] assms(2)])
  also have "\<dots> = z" by (rule gc_neg_right [OF assms])
  finally show ?thesis .
qed

lemma gc_on_multiply:
  assumes gc: "group_contract L on z g" and a: "on a" and n: "0 \<le> n"
  shows "on (multiply L a n)"
  using n
proof (induction n rule: int_ge_induct)
  case base
  show ?case by (simp only: gc_multiply_0 [OF gc a] gc_on_z [OF gc])
next
  case (step i)
  show ?case
    by (simp only: gc_multiply_step [OF gc a step.hyps] gc_on_add [OF gc step.IH a])
qed

lemma gc_multiply_1:
  assumes gc: "group_contract L on z g" and a: "on a"
  shows "multiply L a 1 = a"
proof -
  have "multiply L a (0 + 1) = add L (multiply L a 0) a"
    by (rule gc_multiply_step [OF gc a]) simp
  also have "\<dots> = a" by (simp only: gc_multiply_0 [OF gc a] gc_z_left [OF gc a])
  finally show ?thesis by simp
qed

lemma gc_multiply_add:
  assumes gc: "group_contract L on z g" and a: "on a" and m: "0 \<le> m" and n: "0 \<le> n"
  shows "multiply L a (m + n) = add L (multiply L a m) (multiply L a n)"
  using n
proof (induction n rule: int_ge_induct)
  case base
  show ?case
    by (simp only: add_0_right gc_multiply_0 [OF gc a]
        gc_z_right [OF gc gc_on_multiply [OF gc a m]])
next
  case (step i)
  have mi: "0 \<le> m + i" using m step.hyps by simp
  have "multiply L a (m + (i + 1)) = multiply L a ((m + i) + 1)"
    by (simp add: add.assoc)
  also have "\<dots> = add L (multiply L a (m + i)) a"
    by (rule gc_multiply_step [OF gc a mi])
  also have "\<dots> = add L (add L (multiply L a m) (multiply L a i)) a"
    by (simp only: step.IH)
  also have "\<dots> = add L (multiply L a m) (add L (multiply L a i) a)"
    by (rule gc_assoc [OF gc gc_on_multiply [OF gc a m] gc_on_multiply [OF gc a step.hyps] a])
  also have "\<dots> = add L (multiply L a m) (multiply L a (i + 1))"
    by (simp only: gc_multiply_step [OF gc a step.hyps])
  finally show ?case .
qed

lemma gc_multiply_z:
  assumes gc: "group_contract L on z g" and n: "0 \<le> n"
  shows "multiply L z n = z"
  using n
proof (induction n rule: int_ge_induct)
  case base
  show ?case by (rule gc_multiply_0 [OF gc gc_on_z [OF gc]])
next
  case (step i)
  show ?case
    by (simp only: gc_multiply_step [OF gc gc_on_z [OF gc] step.hyps] step.IH
        gc_z_left [OF gc gc_on_z [OF gc]])
qed

lemma gc_multiply_multiply:
  assumes gc: "group_contract L on z g" and a: "on a" and m: "0 \<le> m" and n: "0 \<le> n"
  shows "multiply L (multiply L a m) n = multiply L a (m * n)"
  using n
proof (induction n rule: int_ge_induct)
  case base
  show ?case
    by (simp only: mult_zero_right gc_multiply_0 [OF gc gc_on_multiply [OF gc a m]]
        gc_multiply_0 [OF gc a])
next
  case (step i)
  have mi: "0 \<le> m * i" using m step.hyps by simp
  have "multiply L (multiply L a m) (i + 1) =
      add L (multiply L (multiply L a m) i) (multiply L a m)"
    by (rule gc_multiply_step [OF gc gc_on_multiply [OF gc a m] step.hyps])
  also have "\<dots> = add L (multiply L a (m * i)) (multiply L a m)"
    by (simp only: step.IH)
  also have "\<dots> = multiply L a (m * i + m)"
    by (rule gc_multiply_add [OF gc a mi m, symmetric])
  also have "m * i + m = m * (i + 1)"
    by (simp add: algebra_simps)
  finally show ?case .
qed

lemma gc_neg_unique:
  assumes gc: "group_contract L on z g" and a: "on a" and b: "on b"
    and ab: "add L a b = z"
  shows "b = neg L a"
proof -
  have "b = add L z b" by (simp only: gc_z_left [OF gc b])
  also have "\<dots> = add L (add L (neg L a) a) b" by (simp only: gc_neg_left [OF gc a])
  also have "\<dots> = add L (neg L a) (add L a b)"
    by (rule gc_assoc [OF gc gc_on_neg [OF gc a] a b])
  also have "\<dots> = neg L a"
    by (simp only: ab gc_z_right [OF gc gc_on_neg [OF gc a]])
  finally show ?thesis .
qed

lemma gc_neg_z:
  assumes gc: "group_contract L on z g"
  shows "neg L z = z"
  by (rule gc_neg_unique [OF gc gc_on_z [OF gc] gc_on_z [OF gc]
        gc_z_left [OF gc gc_on_z [OF gc]], symmetric])

lemma gc_interchange:
  assumes gc: "group_contract L on z g" and a: "on a" and b: "on b" and c: "on c" and d: "on d"
  shows "add L (add L a b) (add L c d) = add L (add L a c) (add L b d)"
proof -
  have "add L (add L a b) (add L c d) = add L a (add L b (add L c d))"
    by (rule gc_assoc [OF gc a b gc_on_add [OF gc c d]])
  also have "add L b (add L c d) = add L (add L b c) d"
    by (rule gc_assoc [OF gc b c d, symmetric])
  also have "add L b c = add L c b" by (rule gc_comm [OF gc b c])
  also have "add L (add L c b) d = add L c (add L b d)" by (rule gc_assoc [OF gc c b d])
  also have "add L a (add L c (add L b d)) = add L (add L a c) (add L b d)"
    by (rule gc_assoc [OF gc a c gc_on_add [OF gc b d], symmetric])
  finally show ?thesis .
qed

lemma gc_multiply_neg:
  assumes gc: "group_contract L on z g" and a: "on a" and n: "0 \<le> n"
  shows "multiply L (neg L a) n = neg L (multiply L a n)"
proof -
  have na: "on (neg L a)" by (rule gc_on_neg [OF gc a])
  have "add L (multiply L a n) (multiply L (neg L a) n) = z"
    using n
  proof (induction n rule: int_ge_induct)
    case base
    show ?case
      by (simp only: gc_multiply_0 [OF gc a] gc_multiply_0 [OF gc na]
          gc_z_left [OF gc gc_on_z [OF gc]])
  next
    case (step i)
    have "add L (multiply L a (i + 1)) (multiply L (neg L a) (i + 1)) =
        add L (add L (multiply L a i) a) (add L (multiply L (neg L a) i) (neg L a))"
      by (simp only: gc_multiply_step [OF gc a step.hyps] gc_multiply_step [OF gc na step.hyps])
    also have "\<dots> = add L (add L (multiply L a i) (multiply L (neg L a) i)) (add L a (neg L a))"
      by (rule gc_interchange [OF gc gc_on_multiply [OF gc a step.hyps] a
            gc_on_multiply [OF gc na step.hyps] na])
    also have "\<dots> = z"
      by (simp only: step.IH gc_neg_right [OF gc a] gc_z_left [OF gc gc_on_z [OF gc]])
    finally show ?case .
  qed
  then show ?thesis
    by (rule gc_neg_unique [OF gc gc_on_multiply [OF gc a n] gc_on_multiply [OF gc na n]])
qed

subsection \<open>The subgroup that the curve order annihilates\<close>

lemma gc_torsion_multiply:
  assumes gc: "group_contract L on z g" and a: "on a" and r: "0 \<le> curve_order L"
    and k: "0 \<le> k" and t: "multiply L a (curve_order L) = z"
  shows "multiply L (multiply L a k) (curve_order L) = z"
proof -
  have "multiply L (multiply L a k) (curve_order L) = multiply L a (k * curve_order L)"
    by (rule gc_multiply_multiply [OF gc a k r])
  also have "k * curve_order L = curve_order L * k" by (rule mult.commute)
  also have "multiply L a (curve_order L * k) = multiply L (multiply L a (curve_order L)) k"
    by (rule gc_multiply_multiply [OF gc a r k, symmetric])
  also have "\<dots> = multiply L z k" by (simp only: t)
  also have "\<dots> = z" by (rule gc_multiply_z [OF gc k])
  finally show ?thesis .
qed

lemma gc_torsion_neg:
  assumes gc: "group_contract L on z g" and a: "on a" and r: "0 \<le> curve_order L"
    and t: "multiply L a (curve_order L) = z"
  shows "multiply L (neg L a) (curve_order L) = z"
proof -
  have "multiply L (neg L a) (curve_order L) = neg L (multiply L a (curve_order L))"
    by (rule gc_multiply_neg [OF gc a r])
  also have "\<dots> = z" by (simp only: t gc_neg_z [OF gc])
  finally show ?thesis .
qed

lemma gc_neg_multiply_complement:
  assumes gc: "group_contract L on z g" and k: "0 \<le> k" and kr: "k \<le> curve_order L"
  shows "neg L (multiply L g k) = multiply L g (curve_order L - k)"
proof -
  have g: "on g" by (rule gc_on_g [OF gc])
  have rk: "0 \<le> curve_order L - k" using kr by simp
  have "add L (multiply L g k) (multiply L g (curve_order L - k)) =
      multiply L g (k + (curve_order L - k))"
    by (rule gc_multiply_add [OF gc g k rk, symmetric])
  also have "k + (curve_order L - k) = curve_order L" by simp
  also have "multiply L g (curve_order L) = z" by (rule gc_order [OF gc])
  finally have "add L (multiply L g k) (multiply L g (curve_order L - k)) = z" .
  then show ?thesis
    by (rule gc_neg_unique [OF gc gc_on_multiply [OF gc g k] gc_on_multiply [OF gc g rk],
          symmetric])
qed

lemma gc_two_three_minus_four:
  assumes gc: "group_contract L on z g"
  shows "add L (add L (multiply L g 2) (multiply L g 3)) (neg L (multiply L g 4)) =
    multiply L g 1"
proof -
  have g: "on g" by (rule gc_on_g [OF gc])
  have m1: "on (multiply L g 1)" by (rule gc_on_multiply [OF gc g]) simp
  have m4: "on (multiply L g 4)" by (rule gc_on_multiply [OF gc g]) simp
  have "add L (multiply L g 2) (multiply L g 3) = multiply L g (2 + 3)"
    by (rule gc_multiply_add [OF gc g, symmetric]) simp_all
  also have "(2::int) + 3 = 1 + 4" by simp
  also have "multiply L g (1 + 4) = add L (multiply L g 1) (multiply L g 4)"
    by (rule gc_multiply_add [OF gc g]) simp_all
  finally have "add L (add L (multiply L g 2) (multiply L g 3)) (neg L (multiply L g 4)) =
      add L (add L (multiply L g 1) (multiply L g 4)) (neg L (multiply L g 4))"
    by (simp only:)
  also have "\<dots> = add L (multiply L g 1) (add L (multiply L g 4) (neg L (multiply L g 4)))"
    by (rule gc_assoc [OF gc m1 m4 gc_on_neg [OF gc m4]])
  also have "\<dots> = multiply L g 1"
    by (simp only: gc_neg_right [OF gc m4] gc_z_right [OF gc m1])
  finally show ?thesis .
qed

subsection \<open>The two groups of the library\<close>

lemma cc_order: "curve_contract L \<Longrightarrow> 0 \<le> curve_order L"
  unfolding curve_contract_def by simp

lemma cc_G1: "curve_contract L \<Longrightarrow> group_contract L (on_curve L) (Z1 L) (G1 L)"
  unfolding curve_contract_def by (elim conjE)

lemma cc_G2: "curve_contract L \<Longrightarrow> group_contract L (on_twist L) (Z2 L) (G2 L)"
  unfolding curve_contract_def by (elim conjE)

lemma in_G1_generator: "curve_contract L \<Longrightarrow> in_G1 L (G1 L)"
  unfolding in_G1_def by (rule conjI [OF gc_on_g [OF cc_G1] gc_order [OF cc_G1]])

lemma in_G2_generator: "curve_contract L \<Longrightarrow> in_G2 L (G2 L)"
  unfolding in_G2_def by (rule conjI [OF gc_on_g [OF cc_G2] gc_order [OF cc_G2]])

lemma in_G1_multiply:
  assumes cc: "curve_contract L" and a: "in_G1 L a" and k: "0 \<le> k"
  shows "in_G1 L (multiply L a k)"
proof -
  from a have on: "on_curve L a" and t: "multiply L a (curve_order L) = Z1 L"
    by (simp_all add: in_G1_def)
  show ?thesis
    unfolding in_G1_def
    using gc_on_multiply [OF cc_G1 [OF cc] on k]
      gc_torsion_multiply [OF cc_G1 [OF cc] on cc_order [OF cc] k t]
    by (rule conjI)
qed

lemma in_G2_multiply:
  assumes cc: "curve_contract L" and a: "in_G2 L a" and k: "0 \<le> k"
  shows "in_G2 L (multiply L a k)"
proof -
  from a have on: "on_twist L a" and t: "multiply L a (curve_order L) = Z2 L"
    by (simp_all add: in_G2_def)
  show ?thesis
    unfolding in_G2_def
    using gc_on_multiply [OF cc_G2 [OF cc] on k]
      gc_torsion_multiply [OF cc_G2 [OF cc] on cc_order [OF cc] k t]
    by (rule conjI)
qed

lemma in_G1_neg:
  assumes cc: "curve_contract L" and a: "in_G1 L a"
  shows "in_G1 L (neg L a)"
proof -
  from a have on: "on_curve L a" and t: "multiply L a (curve_order L) = Z1 L"
    by (simp_all add: in_G1_def)
  show ?thesis
    unfolding in_G1_def
    using gc_on_neg [OF cc_G1 [OF cc] on] gc_torsion_neg [OF cc_G1 [OF cc] on cc_order [OF cc] t]
    by (rule conjI)
qed

lemma in_G2_neg:
  assumes cc: "curve_contract L" and a: "in_G2 L a"
  shows "in_G2 L (neg L a)"
proof -
  from a have on: "on_twist L a" and t: "multiply L a (curve_order L) = Z2 L"
    by (simp_all add: in_G2_def)
  show ?thesis
    unfolding in_G2_def
    using gc_on_neg [OF cc_G2 [OF cc] on] gc_torsion_neg [OF cc_G2 [OF cc] on cc_order [OF cc] t]
    by (rule conjI)
qed

lemma multiply_G1_1: "curve_contract L \<Longrightarrow> multiply L (G1 L) 1 = G1 L"
  by (rule gc_multiply_1 [OF cc_G1 gc_on_g [OF cc_G1]])

lemma multiply_G2_1: "curve_contract L \<Longrightarrow> multiply L (G2 L) 1 = G2 L"
  by (rule gc_multiply_1 [OF cc_G2 gc_on_g [OF cc_G2]])

lemma X1_generator:
  assumes cc: "curve_contract L"
  shows "X1 L = G1 L"
  unfolding X1_def x1_G1_def x2_G1_def x3_G1_def sc_x1_def sc_x2_def sc_x3_def
  by (simp only: gc_two_three_minus_four [OF cc_G1 [OF cc]] multiply_G1_1 [OF cc])

lemma fold_script_inputs:
  assumes cc: "curve_contract L"
  shows "fold_inputs L script_inputs = X1 L"
proof -
  have "on_curve L (x1_G1 L)"
    unfolding x1_G1_def sc_x1_def
    by (rule gc_on_multiply [OF cc_G1 [OF cc] gc_on_g [OF cc_G1 [OF cc]]]) simp
  then have "add L (Z1 L) (x1_G1 L) = x1_G1 L"
    by (rule gc_z_left [OF cc_G1 [OF cc]])
  then show ?thesis
    by (simp add: fold_inputs_def script_inputs_def X1_def x1_G1_def x2_G1_def x3_G1_def)
qed

subsection \<open>The discrete-logarithm instance meets the contracts\<close>

lemma dlog_sel:
  "G1 bn128_dlog = 1" "G2 bn128_dlog = 1" "Z1 bn128_dlog = 0" "Z2 bn128_dlog = 0"
  "on_curve bn128_dlog = (\<lambda>pt. True)" "on_twist bn128_dlog = (\<lambda>pt. True)"
  "add bn128_dlog = (+)" "neg bn128_dlog = uminus"
  "multiply bn128_dlog = (\<lambda>pt n. of_int n * pt)"
  "curve_order bn128_dlog =
     21888242871839275222246405745257275088548364400416034343698204186575808495617"
  by (simp_all add: bn128_dlog_def)

lemma dlog_order_zero: "(of_int (curve_order bn128_dlog) :: zr) = 0"
  by (simp add: dlog_sel)

lemma dlog_group: "group_contract bn128_dlog (\<lambda>pt. True) 0 1"
  unfolding group_contract_def
  by (simp add: dlog_sel(7-9) dlog_order_zero distrib_right)

lemma dlog_curve_contract: "curve_contract bn128_dlog"
  unfolding curve_contract_def
  using dlog_group by (simp add: dlog_sel)

lemma dlog_pairing_sel:
  "pairing dlog_pairing = (*)" "gt_mul dlog_pairing = (+)" "gt_one dlog_pairing = 0"
  by (simp_all add: dlog_pairing_def)

lemma dlog_pairing_contract: "pairing_contract bn128_dlog dlog_pairing"
  unfolding pairing_contract_def
  by (simp add: dlog_sel(3,4,7) dlog_pairing_sel distrib_right distrib_left add.assoc)

lemma dlog_order_gt_4: "4 < curve_order bn128_dlog"
  by (simp add: dlog_sel)

subsection \<open>The pairing\<close>

lemma pc_left:
  assumes "pairing_contract L P" and "in_G1 L a" and "in_G1 L a'" and "in_G2 L b"
  shows "pairing P (add L a a') b = gt_mul P (pairing P a b) (pairing P a' b)"
proof -
  from assms(1) have "\<forall>a a' b. in_G1 L a \<longrightarrow> in_G1 L a' \<longrightarrow> in_G2 L b \<longrightarrow>
      pairing P (add L a a') b = gt_mul P (pairing P a b) (pairing P a' b)"
    unfolding pairing_contract_def by (elim conjE)
  with assms(2,3,4) show ?thesis by blast
qed

lemma pc_right:
  assumes "pairing_contract L P" and "in_G1 L a" and "in_G2 L b" and "in_G2 L b'"
  shows "pairing P a (add L b b') = gt_mul P (pairing P a b) (pairing P a b')"
proof -
  from assms(1) have "\<forall>a b b'. in_G1 L a \<longrightarrow> in_G2 L b \<longrightarrow> in_G2 L b' \<longrightarrow>
      pairing P a (add L b b') = gt_mul P (pairing P a b) (pairing P a b')"
    unfolding pairing_contract_def by (elim conjE)
  with assms(2,3,4) show ?thesis by blast
qed

lemma pc_Z1:
  assumes "pairing_contract L P" and "in_G2 L b"
  shows "pairing P (Z1 L) b = gt_one P"
proof -
  from assms(1) have "\<forall>b. in_G2 L b \<longrightarrow> pairing P (Z1 L) b = gt_one P"
    unfolding pairing_contract_def by (elim conjE)
  with assms(2) show ?thesis by blast
qed

lemma pc_Z2:
  assumes "pairing_contract L P" and "in_G1 L a"
  shows "pairing P a (Z2 L) = gt_one P"
proof -
  from assms(1) have "\<forall>a. in_G1 L a \<longrightarrow> pairing P a (Z2 L) = gt_one P"
    unfolding pairing_contract_def by (elim conjE)
  with assms(2) show ?thesis by blast
qed

lemma pc_one_left:
  assumes "pairing_contract L P"
  shows "gt_mul P (gt_one P) x = x"
proof -
  from assms(1) have "\<forall>x. gt_mul P (gt_one P) x = x"
    unfolding pairing_contract_def by (elim conjE)
  then show ?thesis by blast
qed

lemma pairing_neg_left:
  assumes cc: "curve_contract L" and pc: "pairing_contract L P"
    and a: "in_G1 L a" and b: "in_G2 L b"
  shows "gt_mul P (pairing P (neg L a) b) (pairing P a b) = gt_one P"
proof -
  from a have on: "on_curve L a" by (simp add: in_G1_def)
  have "gt_mul P (pairing P (neg L a) b) (pairing P a b) = pairing P (add L (neg L a) a) b"
    by (rule pc_left [OF pc in_G1_neg [OF cc a] a b, symmetric])
  also have "\<dots> = pairing P (Z1 L) b"
    by (simp only: gc_neg_left [OF cc_G1 [OF cc] on])
  also have "\<dots> = gt_one P" by (rule pc_Z1 [OF pc b])
  finally show ?thesis .
qed

lemma pairing_neg_right:
  assumes cc: "curve_contract L" and pc: "pairing_contract L P"
    and a: "in_G1 L a" and b: "in_G2 L b"
  shows "gt_mul P (pairing P a b) (pairing P a (neg L b)) = gt_one P"
proof -
  from b have on: "on_twist L b" by (simp add: in_G2_def)
  have "gt_mul P (pairing P a b) (pairing P a (neg L b)) = pairing P a (add L b (neg L b))"
    by (rule pc_right [OF pc a b in_G2_neg [OF cc b], symmetric])
  also have "\<dots> = pairing P a (Z2 L)"
    by (simp only: gc_neg_right [OF cc_G2 [OF cc] on])
  also have "\<dots> = gt_one P" by (rule pc_Z2 [OF pc a])
  finally show ?thesis .
qed

lemma script_points:
  assumes cc: "curve_contract L"
  shows "A1 L = G1 L" "B2 L = G2 L" "C1 L = G1 L" "a1 L = G1 L" "b2 L = G2 L" "g2 L = G2 L"
    "D2 L = neg L (G2 L)"
  by (simp_all add: A1_def B2_def C1_def a1_def b2_def g2_def D2_def
      sc_A1_def sc_B2_def sc_C1_def sc_a1_def sc_b2_def sc_g2_def sc_D2_def
      multiply_G1_1 [OF cc] multiply_G2_1 [OF cc])

lemma script_product_one:
  assumes cc: "curve_contract L" and pc: "pairing_contract L P"
  shows "pairing_product L P (script_proof L) (X1 L) (script_key L) = gt_one P"
proof -
  let ?e = "pairing P (G1 L) (G2 L)"
  have g1: "in_G1 L (G1 L)" by (rule in_G1_generator [OF cc])
  have g2: "in_G2 L (G2 L)" by (rule in_G2_generator [OF cc])
  have "pairing_product L P (script_proof L) (X1 L) (script_key L) =
      gt_mul P (gt_mul P (gt_mul P (pairing P (neg L (G1 L)) (G2 L)) ?e) ?e)
        (pairing P (G1 L) (neg L (G2 L)))"
    by (simp add: pairing_product_def script_proof_def script_key_def
        script_points [OF cc] X1_generator [OF cc])
  also have "\<dots> = gt_mul P (gt_mul P (gt_one P) ?e) (pairing P (G1 L) (neg L (G2 L)))"
    by (simp only: pairing_neg_left [OF cc pc g1 g2])
  also have "\<dots> = gt_mul P ?e (pairing P (G1 L) (neg L (G2 L)))"
    by (simp only: pc_one_left [OF pc])
  also have "\<dots> = gt_one P" by (rule pairing_neg_right [OF cc pc g1 g2])
  finally show ?thesis .
qed

lemma script_points_valid:
  assumes cc: "curve_contract L"
  shows "points_valid L (script_proof L) (X1 L) (script_key L)"
  by (simp add: points_valid_def script_proof_def script_key_def script_points [OF cc]
      X1_generator [OF cc] in_G1_generator [OF cc] in_G2_generator [OF cc]
      in_G2_neg [OF cc in_G2_generator [OF cc]])

section \<open>Results\<close>

text \<open>
  C1. With the constants of the script (A1 = C1 = alpha1 = 1 G1, B2 = beta2 = gamma2 =
  1 G2, delta2 = neg (1 G2), inputs 2, 3 and -4, the last one by point negation), the
  product e(-A1, B2) e(alpha1, beta2) e(X1, gamma2) e(C1, delta2) is the identity of
  the target group, and \<open>verify\<close> returns true, for every library whose groups and
  pairing meet their contracts.
\<close>

theorem scenario_verifies:
  assumes cc: "curve_contract L" and pc: "pairing_contract L P"
  shows "pairing_product L P (script_proof L) (X1 L) (script_key L) = gt_one P \<and>
    verify L P (script_proof L) script_inputs (script_key L)"
  by (simp add: verify_def check_def fold_script_inputs [OF cc] script_points_valid [OF cc]
      script_product_one [OF cc pc])

text \<open>The same in the discrete-logarithm form of BN128.\<close>

theorem scenario_verifies_witness:
  "curve_contract bn128_dlog \<and> pairing_contract bn128_dlog dlog_pairing \<and>
   pairing_product bn128_dlog dlog_pairing (script_proof bn128_dlog) (X1 bn128_dlog)
     (script_key bn128_dlog) = gt_one dlog_pairing \<and>
   verify bn128_dlog dlog_pairing (script_proof bn128_dlog) script_inputs
     (script_key bn128_dlog)"
  by (rule conjI [OF dlog_curve_contract conjI [OF dlog_pairing_contract
        scenario_verifies [OF dlog_curve_contract dlog_pairing_contract]]])

text \<open>
  C2 (as the claim states it, refuted). The claim wants the point the script computes
  for x3 = -4, \<open>neg (multiply G1 4)\<close>, to differ from the point of the scalar it
  prints for the contract, \<open>multiply G1 (curve_order - 4)\<close>. At the order of
  BN128, in discrete-logarithm form, the two are the same point, and so are the two
  folds.
\<close>

theorem two_forms_agree_dlog:
  "x3_G1 bn128_dlog = multiply bn128_dlog (G1 bn128_dlog) (x3_as_positive bn128_dlog) \<and>
   X1 bn128_dlog = X1_printed bn128_dlog"
  by (simp add: X1_def X1_printed_def x1_G1_def x2_G1_def x3_G1_def x3_as_positive_def
      sc_x1_def sc_x2_def sc_x3_def dlog_sel)

text \<open>
  C2 (amended). For every library whose G1 meets its contract, with a curve order of
  at least 4, the point of the scalar the script prints, \<open>curve_order - 4\<close>, is the
  negated point of 4, and folding the printed inputs (2, 3 and \<open>curve_order - 4\<close>)
  gives the same point as folding 2, 3 and the negated point of 4: the two conventions
  do not diverge.
\<close>

theorem printed_input_folds_to_same_point:
  assumes cc: "curve_contract L" and r: "4 \<le> curve_order L"
  shows "multiply L (G1 L) (x3_as_positive L) = x3_G1 L \<and> X1_printed L = X1 L"
  using gc_neg_multiply_complement [OF cc_G1 [OF cc] _ r]
  by (simp add: X1_def X1_printed_def x1_G1_def x2_G1_def x3_G1_def x3_as_positive_def
      sc_x3_def)

theorem printed_input_folds_to_same_point_witness:
  "curve_contract bn128_dlog \<and> 4 \<le> curve_order bn128_dlog \<and>
   multiply bn128_dlog (G1 bn128_dlog) (x3_as_positive bn128_dlog) = x3_G1 bn128_dlog \<and>
   X1_printed bn128_dlog = X1 bn128_dlog"
proof -
  have r: "4 \<le> curve_order bn128_dlog" using dlog_order_gt_4 by simp
  show ?thesis
    by (rule conjI [OF dlog_curve_contract
          conjI [OF r printed_input_folds_to_same_point [OF dlog_curve_contract r]]])
qed

text \<open>
  C3. The verification key of the script is four points, each the generator of its
  group multiplied by its seed, which is 1: alpha1 = 1 G1, beta2 = 1 G2, gamma2 = 1 G2,
  and delta2, alone, is negated: delta2 = neg (1 G2). It is the key that the
  construction of the specification builds from the script's seeds.
\<close>

theorem vk_construction:
  "alpha1 (script_key L) = multiply L (G1 L) 1 \<and>
   beta2 (script_key L) = multiply L (G2 L) 1 \<and>
   gamma2 (script_key L) = multiply L (G2 L) 1 \<and>
   delta2 (script_key L) = neg L (multiply L (G2 L) 1) \<and>
   script_key L = buildVerificationKey L script_seeds"
  by (simp add: script_key_def buildVerificationKey_def script_seeds_def
      a1_def b2_def g2_def D2_def sc_a1_def sc_b2_def sc_g2_def sc_D2_def)

text \<open>
  C4. The fold of the scenario inputs is the generator: multiply G1 2 + multiply G1 3
  + neg (multiply G1 4) = 1 G1. It is the sum X1 of the three reference points of the
  script, and the fold of the specification on the inputs 2, 3 and 4 negated.
\<close>

theorem public_input_fold_is_generator:
  assumes cc: "curve_contract L"
  shows "add L (add L (multiply L (G1 L) 2) (multiply L (G1 L) 3))
      (neg L (multiply L (G1 L) 4)) = multiply L (G1 L) 1 \<and>
    X1 L = multiply L (G1 L) 1 \<and>
    fold_inputs L script_inputs = multiply L (G1 L) 1"
proof -
  have "X1 L = multiply L (G1 L) 1"
    by (simp only: X1_generator [OF cc] multiply_G1_1 [OF cc])
  then show ?thesis
    by (simp only: fold_script_inputs [OF cc] gc_two_three_minus_four [OF cc_G1 [OF cc]])
qed

theorem public_input_fold_is_generator_witness:
  "curve_contract bn128_dlog \<and>
   add bn128_dlog
     (add bn128_dlog (multiply bn128_dlog (G1 bn128_dlog) 2)
        (multiply bn128_dlog (G1 bn128_dlog) 3))
     (neg bn128_dlog (multiply bn128_dlog (G1 bn128_dlog) 4)) =
     multiply bn128_dlog (G1 bn128_dlog) 1 \<and>
   X1 bn128_dlog = multiply bn128_dlog (G1 bn128_dlog) 1 \<and>
   fold_inputs bn128_dlog script_inputs = multiply bn128_dlog (G1 bn128_dlog) 1"
  by (rule conjI [OF dlog_curve_contract
        public_input_fold_is_generator [OF dlog_curve_contract]])

text \<open>
  C6. Every point the script builds for a pairing lies on its curve and in the
  subgroup that the curve order annihilates: the generators do, and \<open>multiply\<close> by
  a non-negative scalar and \<open>neg\<close> keep a point there.
\<close>

theorem script_points_in_subgroup:
  assumes cc: "curve_contract L"
  shows "in_G1 L (A1 L) \<and> in_G2 L (B2 L) \<and> in_G1 L (C1 L) \<and>
    in_G1 L (a1 L) \<and> in_G2 L (b2 L) \<and> in_G2 L (g2 L) \<and> in_G2 L (D2 L) \<and>
    in_G1 L (x1_G1 L) \<and> in_G1 L (x2_G1 L) \<and> in_G1 L (x3_G1 L)"
  unfolding A1_def B2_def C1_def a1_def b2_def g2_def D2_def x1_G1_def x2_G1_def x3_G1_def
    sc_A1_def sc_B2_def sc_C1_def sc_a1_def sc_b2_def sc_g2_def sc_D2_def
    sc_x1_def sc_x2_def sc_x3_def
  by (intro conjI in_G1_neg [OF cc] in_G2_neg [OF cc] in_G1_multiply [OF cc]
      in_G2_multiply [OF cc] in_G1_generator [OF cc] in_G2_generator [OF cc]) simp_all

theorem script_points_in_subgroup_witness:
  "curve_contract bn128_dlog \<and>
   (in_G1 bn128_dlog (A1 bn128_dlog) \<and> in_G2 bn128_dlog (B2 bn128_dlog) \<and>
    in_G1 bn128_dlog (C1 bn128_dlog) \<and> in_G1 bn128_dlog (a1 bn128_dlog) \<and>
    in_G2 bn128_dlog (b2 bn128_dlog) \<and> in_G2 bn128_dlog (g2 bn128_dlog) \<and>
    in_G2 bn128_dlog (D2 bn128_dlog) \<and> in_G1 bn128_dlog (x1_G1 bn128_dlog) \<and>
    in_G1 bn128_dlog (x2_G1 bn128_dlog) \<and> in_G1 bn128_dlog (x3_G1 bn128_dlog))"
  by (rule conjI [OF dlog_curve_contract script_points_in_subgroup [OF dlog_curve_contract]])

text \<open>
  C7. Every scalar of the script is reduced into [0, order): the seeds 1, 2, 3, 4 that
  it hands to \<open>multiply\<close> and the scalar \<open>curve_order - 4\<close> that it prints, for
  every curve order above 4, as the order of BN128 is.
\<close>

theorem script_scalars_reduced:
  assumes "4 < curve_order L"
  shows "list_all (reduced L) (script_scalars L)"
  using assms
  by (simp add: script_scalars_def reduced_def x3_as_positive_def
      sc_A1_def sc_B2_def sc_C1_def sc_a1_def sc_b2_def sc_g2_def sc_D2_def
      sc_x1_def sc_x2_def sc_x3_def)

theorem script_scalars_reduced_witness:
  "4 < curve_order bn128_dlog \<and> list_all (reduced bn128_dlog) (script_scalars bn128_dlog)"
  by (rule conjI [OF dlog_order_gt_4 script_scalars_reduced [OF dlog_order_gt_4]])

text \<open>
  C8. In G1, negating the point of 4 is multiplying by the complement of 4 in the
  order: neg (multiply G1 4) = multiply G1 (curve_order - 4). The reference point
  \<open>x3_G1\<close> of the script and the scalar it prints for the contract are the same
  group element.
\<close>

theorem negated_point_is_order_complement:
  assumes cc: "curve_contract L" and r: "4 \<le> curve_order L"
  shows "neg L (multiply L (G1 L) 4) = multiply L (G1 L) (curve_order L - 4) \<and>
    x3_G1 L = multiply L (G1 L) (x3_as_positive L)"
  using gc_neg_multiply_complement [OF cc_G1 [OF cc] _ r]
  by (simp add: x3_G1_def x3_as_positive_def sc_x3_def)

theorem negated_point_is_order_complement_witness:
  "curve_contract bn128_dlog \<and> 4 \<le> curve_order bn128_dlog \<and>
   neg bn128_dlog (multiply bn128_dlog (G1 bn128_dlog) 4) =
     multiply bn128_dlog (G1 bn128_dlog) (curve_order bn128_dlog - 4) \<and>
   x3_G1 bn128_dlog = multiply bn128_dlog (G1 bn128_dlog) (x3_as_positive bn128_dlog)"
proof -
  have r: "4 \<le> curve_order bn128_dlog" using dlog_order_gt_4 by simp
  show ?thesis
    by (rule conjI [OF dlog_curve_contract
          conjI [OF r negated_point_is_order_complement [OF dlog_curve_contract r]]])
qed

text \<open>
  C9. The proof points of the fixture are the key points built from the same seeds:
  A1 = C1 = alpha1, all 1 G1, and B2 = beta2 = gamma2, all 1 G2; each of them is the
  generator of its group.
\<close>

theorem fixture_points_are_generators:
  assumes cc: "curve_contract L"
  shows "A1 L = a1 L \<and> C1 L = a1 L \<and> a1 L = multiply L (G1 L) 1 \<and>
    multiply L (G1 L) 1 = G1 L \<and>
    B2 L = b2 L \<and> g2 L = b2 L \<and> b2 L = multiply L (G2 L) 1 \<and>
    multiply L (G2 L) 1 = G2 L"
  by (simp add: A1_def C1_def a1_def B2_def b2_def g2_def
      sc_A1_def sc_C1_def sc_a1_def sc_B2_def sc_b2_def sc_g2_def
      multiply_G1_1 [OF cc] multiply_G2_1 [OF cc])

theorem fixture_points_are_generators_witness:
  "curve_contract bn128_dlog \<and>
   (A1 bn128_dlog = a1 bn128_dlog \<and> C1 bn128_dlog = a1 bn128_dlog \<and>
    a1 bn128_dlog = multiply bn128_dlog (G1 bn128_dlog) 1 \<and>
    multiply bn128_dlog (G1 bn128_dlog) 1 = G1 bn128_dlog \<and>
    B2 bn128_dlog = b2 bn128_dlog \<and> g2 bn128_dlog = b2 bn128_dlog \<and>
    b2 bn128_dlog = multiply bn128_dlog (G2 bn128_dlog) 1 \<and>
    multiply bn128_dlog (G2 bn128_dlog) 1 = G2 bn128_dlog)"
  by (rule conjI [OF dlog_curve_contract
        fixture_points_are_generators [OF dlog_curve_contract]])

text \<open>
  C10. \<open>moccasin_main\<close> returns what \<open>deploy\<close> returns, and \<open>deploy\<close> is one call
  of \<open>Verifier.deploy\<close>: its outcome (the contract, or the error it raised) and
  the chain it leaves are those of that call.
\<close>

theorem moccasin_main_is_deploy:
  "moccasin_main Verifier_deploy chain = deploy Verifier_deploy chain \<and>
   deploy Verifier_deploy chain = Verifier_deploy chain"
  by (simp add: moccasin_main_def deploy_def split: prod.split sum.split)

end
